theory Spec2Isabelle
  imports Complex_Main
begin

section \<open>Values\<close>

text \<open>
  A JavaScript number is a double. Every finite double is a rational, and the only
  numbers the server compares against are small integers, so a finite number is modelled
  as a \<open>rat\<close>; \<open>NaN\<close> (what \<open>parseInt\<close> returns on a string without digits) is
  kept apart. The infinities are left out: JSON carries none.
\<close>

datatype jsnum = Num rat | NaN

text \<open>The values a tool call's \<open>arguments\<close> may hold (\<open>args: any\<close>).\<close>

datatype jsval =
    VUndefined
  | VNull
  | VBool bool
  | VNum jsnum
  | VStr string
  | VArr "jsval list"
  | VObj "(string \<times> jsval) list"

text \<open>Reading a property of an object literal; an absent key reads as \<open>undefined\<close>.\<close>

definition get_prop :: "(string \<times> jsval) list \<Rightarrow> string \<Rightarrow> jsval" where
  "get_prop fs k = (case map_of fs k of None \<Rightarrow> VUndefined | Some v \<Rightarrow> v)"

text \<open>JavaScript truthiness of a number: \<open>0\<close> and \<open>NaN\<close> are falsy.\<close>

fun truthy_num :: "jsnum \<Rightarrow> bool" where
  "truthy_num (Num r) = (r \<noteq> 0)"
| "truthy_num NaN = False"

subsection \<open>parseInt\<close>

text \<open>
  \<open>parseInt(s)\<close> with no radix: leading white space is skipped, one sign is read, a
  \<open>0x\<close> or \<open>0X\<close> prefix selects base 16, and the longest run of digits of the base
  is the value; with no digit the result is \<open>NaN\<close>. White space is the ASCII part of
  what JavaScript skips.
\<close>

definition is_space :: "char \<Rightarrow> bool" where
  "is_space c = (c \<in> set [CHR '' '', CHR 0x09, CHR 0x0A, CHR 0x0B, CHR 0x0C, CHR 0x0D])"

definition digit_of :: "nat \<Rightarrow> char \<Rightarrow> nat option" where
  "digit_of base c =
     (let n = (of_char c :: nat);
          d = (if 48 \<le> n \<and> n \<le> 57 then Some (n - 48)
               else if 97 \<le> n \<and> n \<le> 122 then Some (n - 87)
               else if 65 \<le> n \<and> n \<le> 90 then Some (n - 55)
               else None)
      in case d of None \<Rightarrow> None | Some v \<Rightarrow> if v < base then Some v else None)"

fun digits_value :: "nat \<Rightarrow> nat \<Rightarrow> string \<Rightarrow> nat" where
  "digits_value base acc [] = acc"
| "digits_value base acc (c # cs) =
     (case digit_of base c of
        None \<Rightarrow> acc
      | Some d \<Rightarrow> digits_value base (acc * base + d) cs)"

definition parse_digits :: "nat \<Rightarrow> string \<Rightarrow> nat option" where
  "parse_digits base s =
     (case s of
        [] \<Rightarrow> None
      | c # cs \<Rightarrow> (case digit_of base c of
                    None \<Rightarrow> None
                  | Some d \<Rightarrow> Some (digits_value base 0 s)))"

definition parseInt :: "string \<Rightarrow> jsnum" where
  "parseInt s =
     (let s1 = dropWhile is_space s;
          neg = (case s1 of c # _ \<Rightarrow> c = CHR ''-'' | [] \<Rightarrow> False);
          s2 = (case s1 of c # cs \<Rightarrow> if c = CHR ''-'' \<or> c = CHR ''+'' then cs else s1
                | [] \<Rightarrow> s1);
          hex = (case s2 of a # b # _ \<Rightarrow> a = CHR ''0'' \<and> (b = CHR ''x'' \<or> b = CHR ''X'')
                 | _ \<Rightarrow> False);
          v = (if hex then parse_digits 16 (drop 2 s2) else parse_digits 10 s2)
      in case v of
           None \<Rightarrow> NaN
         | Some n \<Rightarrow> Num (if neg then - of_nat n else of_nat n))"

section \<open>Argument schemas\<close>

datatype errcode = InvalidRequest | InternalError | MethodNotFound

text \<open>
  The fixed texts of the errors the server throws; each constructor is one template
  literal of the source and carries the interpolated message of the error it wraps.
\<close>

datatype message =
    NoProjectContext
  | FailedToSetProjectContext string
  | FailedToGetProjectInfo string
  | FailedToCreateStory string
  | FailedToUpdateStoryStatus string
  | FailedToListStories string

datatype error = ZodError | McpError errcode message

text \<open>
  The validators of the schema library, as the server uses them. A validator returns
  \<open>None\<close> where the library reports an issue. \<open>z.number()\<close> accepts a number other
  than \<open>NaN\<close>; \<open>.optional()\<close> also accepts \<open>undefined\<close>.
\<close>

definition z_number :: "jsval \<Rightarrow> rat option" where
  "z_number v = (case v of VNum (Num r) \<Rightarrow> Some r | _ \<Rightarrow> None)"

definition z_string :: "jsval \<Rightarrow> string option" where
  "z_string v = (case v of VStr s \<Rightarrow> Some s | _ \<Rightarrow> None)"

definition z_refine :: "('a \<Rightarrow> bool) \<Rightarrow> 'a option \<Rightarrow> 'a option" where
  "z_refine p x = (case x of None \<Rightarrow> None | Some a \<Rightarrow> if p a then Some a else None)"

definition z_optional :: "(jsval \<Rightarrow> 'a option) \<Rightarrow> jsval \<Rightarrow> 'a option option" where
  "z_optional f v = (case v of VUndefined \<Rightarrow> Some None
                     | _ \<Rightarrow> (case f v of None \<Rightarrow> None | Some a \<Rightarrow> Some (Some a)))"

definition z_enum :: "string list \<Rightarrow> jsval \<Rightarrow> string option" where
  "z_enum opts v = (case v of VStr s \<Rightarrow> if s \<in> set opts then Some s else None | _ \<Rightarrow> None)"

record create_story_args =
  cs_name :: string
  cs_description :: "string option"
  cs_estimate :: "rat option"
  cs_epic_id :: "rat option"
  cs_project_id :: "rat option"

definition CreateStorySchema :: "jsval \<Rightarrow> error + create_story_args" where
  "CreateStorySchema args =
     (case args of
        VObj fs \<Rightarrow>
          (case (z_refine (\<lambda>s. 1 \<le> length s) (z_string (get_prop fs ''name'')),
                 z_optional z_string (get_prop fs ''description''),
                 z_optional (\<lambda>v. z_refine (\<lambda>r. r \<le> 8) (z_refine (\<lambda>r. 0 < r) (z_number v)))
                   (get_prop fs ''estimate''),
                 z_optional z_number (get_prop fs ''epic_id''),
                 z_optional z_number (get_prop fs ''project_id'')) of
             (Some n, Some d, Some e, Some ep, Some p) \<Rightarrow>
               Inr \<lparr>cs_name = n, cs_description = d, cs_estimate = e,
                    cs_epic_id = ep, cs_project_id = p\<rparr>
           | _ \<Rightarrow> Inl ZodError)
      | _ \<Rightarrow> Inl ZodError)"

text \<open>The status argument after validation: one of the enumerated strings, or a number.\<close>

datatype status_arg = StatusStr string | StatusNum rat

definition z_status :: "jsval \<Rightarrow> status_arg option" where
  "z_status v =
     (case z_enum [''1'', ''3'', ''5''] v of
        Some s \<Rightarrow> Some (StatusStr s)
      | None \<Rightarrow> (case z_refine (\<lambda>r. r \<le> 5) (z_refine (\<lambda>r. 1 \<le> r) (z_number v)) of
                   Some r \<Rightarrow> Some (StatusNum r)
                 | None \<Rightarrow> None))"

record update_story_status_args =
  us_story_id :: rat
  us_status :: status_arg
  us_notes :: "string option"

definition UpdateStoryStatusSchema :: "jsval \<Rightarrow> error + update_story_status_args" where
  "UpdateStoryStatusSchema args =
     (case args of
        VObj fs \<Rightarrow>
          (case (z_refine (\<lambda>r. 0 < r) (z_number (get_prop fs ''story_id'')),
                 z_status (get_prop fs ''status''),
                 z_optional z_string (get_prop fs ''notes'')) of
             (Some i, Some s, Some n) \<Rightarrow>
               Inr \<lparr>us_story_id = i, us_status = s, us_notes = n\<rparr>
           | _ \<Rightarrow> Inl ZodError)
      | _ \<Rightarrow> Inl ZodError)"

definition GetProjectSchema :: "jsval \<Rightarrow> error + rat option" where
  "GetProjectSchema args =
     (case args of
        VObj fs \<Rightarrow>
          (case z_optional (\<lambda>v. z_refine (\<lambda>r. 0 < r) (z_number v)) (get_prop fs ''project_id'') of
             Some p \<Rightarrow> Inr p
           | None \<Rightarrow> Inl ZodError)
      | _ \<Rightarrow> Inl ZodError)"

definition SetProjectContextSchema :: "jsval \<Rightarrow> error + rat" where
  "SetProjectContextSchema args =
     (case args of
        VObj fs \<Rightarrow>
          (case z_refine (\<lambda>r. 0 < r) (z_number (get_prop fs ''project_id'')) of
             Some p \<Rightarrow> Inr p
           | None \<Rightarrow> Inl ZodError)
      | _ \<Rightarrow> Inl ZodError)"

record list_stories_args =
  ls_status :: "string option"
  ls_project_id :: "rat option"

definition ListStoriesSchema :: "jsval \<Rightarrow> error + list_stories_args" where
  "ListStoriesSchema args =
     (case args of
        VObj fs \<Rightarrow>
          (case (z_optional (z_enum [''1'', ''3'', ''5'', ''all'']) (get_prop fs ''status''),
                 z_optional z_number (get_prop fs ''project_id'')) of
             (Some s, Some p) \<Rightarrow> Inr \<lparr>ls_status = s, ls_project_id = p\<rparr>
           | _ \<Rightarrow> Inl ZodError)
      | _ \<Rightarrow> Inl ZodError)"

section \<open>The backend gateway as the server sees it\<close>

record project =
  p_id :: rat
  p_name :: string
  p_progress_percentage :: "rat option"

text \<open>
  The interface declares a story's status a number; the server also handles a status that
  arrives as a string (\<open>typeof s.status === 'string' ? parseInt(s.status) : s.status\<close>).
\<close>

datatype status_val = StNum rat | StStr string

record story =
  s_id :: rat
  s_name :: string
  s_description :: "string option"
  s_status :: status_val
  s_estimate :: "rat option"
  s_epic_id :: "rat option"
  s_project_id :: rat

record create_story_data =
  d_name :: string
  d_description :: "string option"
  d_estimate :: "rat option"
  d_epic_id :: "rat option"
  d_project_id :: jsnum
  d_status :: "rat option"

text \<open>
  The methods of \<open>SoftYPMClient\<close> that the server awaits. Each stands for one HTTP
  request; the awaited promise rejects with an \<open>Error\<close> (\<open>Inl\<close>, its message) or
  resolves to a value of the declared type. What the backend answers is a parameter.
\<close>

record gateway =
  client_getProject :: "jsnum \<Rightarrow> string + project"
  client_getProjectStories :: "jsnum \<Rightarrow> string + story list"
  client_createStory :: "create_story_data \<Rightarrow> string + story"
  client_getStory :: "jsnum \<Rightarrow> string + story"
  client_updateStoryStatus :: "jsnum \<Rightarrow> jsnum \<Rightarrow> string + unit"

text \<open>The requests an operation has issued, in order.\<close>

datatype call =
    GetProject jsnum
  | GetProjectStories jsnum
  | CreateStory create_story_data
  | GetStory jsnum
  | UpdateStoryStatus jsnum jsnum

fun is_write :: "call \<Rightarrow> bool" where
  "is_write (CreateStory d) = True"
| "is_write (UpdateStoryStatus i s) = True"
| "is_write c = False"

fun call_project :: "call \<Rightarrow> jsnum option" where
  "call_project (GetProject p) = Some p"
| "call_project (GetProjectStories p) = Some p"
| "call_project (CreateStory d) = Some (d_project_id d)"
| "call_project c = None"

section \<open>Responses\<close>

text \<open>
  Every text the server returns is a template literal. A response is modelled by the
  template it comes from (one constructor each) and the values interpolated into it, in
  the order of the source; the fixed wording is not repeated.
\<close>

datatype part = PNum rat | PStr string

datatype hint = NowInProgress | StoryCompleted

datatype next_stories =
    NextInProgress "(rat \<times> string \<times> part) list"
  | NextBacklog "(rat \<times> string \<times> part) list"

datatype response =
    ContextSet string rat rat
  | ProjectInfo string jsnum rat nat nat nat next_stories
  | StoryTooLarge string rat
  | StoryCreated rat string string part
  | InvalidTransition string string string string
  | StoryUpdated rat string string string "string option" "hint option"
  | NoStoriesFound "string option"
  | StoryList "string option" "(rat \<times> string \<times> string \<times> rat option) list" "nat option"

record outcome =
  result :: "error + response"
  calls :: "call list"
  currentProjectId :: "jsnum option"

section \<open>The server\<close>

text \<open>
  The constructor: \<open>currentProjectId\<close> starts as \<open>null\<close>, or as
  \<open>parseInt(DEFAULT_PROJECT_ID)\<close> when that variable is a non-empty string.
\<close>

definition initialProjectId :: "string option \<Rightarrow> jsnum option" where
  "initialProjectId env =
     (case env of
        None \<Rightarrow> None
      | Some s \<Rightarrow> if s \<noteq> [] then Some (parseInt s) else None)"

text \<open>\<open>project_id || this.currentProjectId\<close>\<close>

definition or_current :: "rat option \<Rightarrow> jsnum option \<Rightarrow> jsnum option" where
  "or_current project_id cur =
     (case project_id of
        None \<Rightarrow> cur
      | Some p \<Rightarrow> if p \<noteq> 0 then Some (Num p) else cur)"

text \<open>\<open>x || 0\<close> on an optional number\<close>

definition or_zero :: "rat option \<Rightarrow> rat" where
  "or_zero x = (case x of None \<Rightarrow> 0 | Some r \<Rightarrow> if r \<noteq> 0 then r else 0)"

text \<open>\<open>x || 'text'\<close> on an optional number and on an optional string\<close>

definition num_or :: "rat option \<Rightarrow> string \<Rightarrow> part" where
  "num_or x t = (case x of None \<Rightarrow> PStr t | Some r \<Rightarrow> if r \<noteq> 0 then PNum r else PStr t)"

definition str_or :: "string option \<Rightarrow> string \<Rightarrow> string" where
  "str_or x t = (case x of None \<Rightarrow> t | Some s \<Rightarrow> if s \<noteq> [] then s else t)"

definition story_status :: "story \<Rightarrow> jsnum" where
  "story_status s = (case s_status s of StStr t \<Rightarrow> parseInt t | StNum r \<Rightarrow> Num r)"

text \<open>
  \<open>statusNames\<close> and \<open>validTransitions\<close> are object literals with the keys 1, 3 and 5.
  Indexing with a number looks up the number's decimal text, which is a key for exactly
  these three numbers; anything else (also \<open>NaN\<close>) reads as \<open>undefined\<close>.
\<close>

definition statusNames :: "jsnum \<Rightarrow> string option" where
  "statusNames k =
     (if k = Num 1 then Some ''Backlog''
      else if k = Num 3 then Some ''In Progress''
      else if k = Num 5 then Some ''Done''
      else None)"

definition validTransitions :: "jsnum \<Rightarrow> jsnum list option" where
  "validTransitions k =
     (if k = Num 1 then Some [Num 3]
      else if k = Num 3 then Some [Num 5, Num 1]
      else if k = Num 5 then Some [Num 1, Num 3]
      else None)"

text \<open>An interpolated value that may be \<open>undefined\<close> prints as that word.\<close>

definition shown :: "string option \<Rightarrow> string" where
  "shown x = (case x of None \<Rightarrow> ''undefined'' | Some s \<Rightarrow> s)"

text \<open>\<open>Array.prototype.join\<close>: an \<open>undefined\<close> element contributes the empty text.\<close>

fun join :: "string \<Rightarrow> string option list \<Rightarrow> string" where
  "join sep [] = []"
| "join sep [x] = (case x of None \<Rightarrow> [] | Some s \<Rightarrow> s)"
| "join sep (x # y # ys) = (case x of None \<Rightarrow> [] | Some s \<Rightarrow> s) @ sep @ join sep (y # ys)"

definition setProjectContext :: "gateway \<Rightarrow> jsnum option \<Rightarrow> jsval \<Rightarrow> outcome" where
  "setProjectContext gw cur args =
     (case SetProjectContextSchema args of
        Inl e \<Rightarrow> \<lparr>result = Inl e, calls = [], currentProjectId = cur\<rparr>
      | Inr project_id \<Rightarrow>
          (case client_getProject gw (Num project_id) of
             Inl m \<Rightarrow>
               \<lparr>result = Inl (McpError InvalidRequest (FailedToSetProjectContext m)),
                calls = [GetProject (Num project_id)],
                currentProjectId = cur\<rparr>
           | Inr project \<Rightarrow>
               \<lparr>result = Inr (ContextSet (p_name project) project_id
                                (or_zero (p_progress_percentage project))),
                calls = [GetProject (Num project_id)],
                currentProjectId = Some (Num project_id)\<rparr>))"

definition next_line :: "story \<Rightarrow> rat \<times> string \<times> part" where
  "next_line s = (s_id s, s_name s, num_or (s_estimate s) ''?'')"

definition getProjectInfo :: "gateway \<Rightarrow> jsnum option \<Rightarrow> jsval \<Rightarrow> outcome" where
  "getProjectInfo gw cur args =
     (case GetProjectSchema args of
        Inl e \<Rightarrow> \<lparr>result = Inl e, calls = [], currentProjectId = cur\<rparr>
      | Inr project_id \<Rightarrow>
          (case or_current project_id cur of
             None \<Rightarrow>
               \<lparr>result = Inl (McpError InvalidRequest NoProjectContext),
                calls = [], currentProjectId = cur\<rparr>
           | Some projectId \<Rightarrow>
               if \<not> truthy_num projectId then
                 \<lparr>result = Inl (McpError InvalidRequest NoProjectContext),
                  calls = [], currentProjectId = cur\<rparr>
               else
                 (case client_getProject gw projectId of
                    Inl m \<Rightarrow>
                      \<lparr>result = Inl (McpError InternalError (FailedToGetProjectInfo m)),
                       calls = [GetProject projectId], currentProjectId = cur\<rparr>
                  | Inr project \<Rightarrow>
                      (case client_getProjectStories gw projectId of
                         Inl m \<Rightarrow>
                           \<lparr>result = Inl (McpError InternalError (FailedToGetProjectInfo m)),
                            calls = [GetProject projectId, GetProjectStories projectId],
                            currentProjectId = cur\<rparr>
                       | Inr stories \<Rightarrow>
                           (let backlogStories = filter (\<lambda>s. story_status s = Num 1) stories;
                                inProgressStories = filter (\<lambda>s. story_status s = Num 3) stories;
                                doneStories = filter (\<lambda>s. story_status s = Num 5) stories
                            in \<lparr>result = Inr (ProjectInfo (p_name project) projectId
                                     (or_zero (p_progress_percentage project))
                                     (length doneStories) (length inProgressStories)
                                     (length backlogStories)
                                     (if length inProgressStories > 0
                                      then NextInProgress (map next_line (take 3 inProgressStories))
                                      else NextBacklog (map next_line (take 3 backlogStories)))),
                                calls = [GetProject projectId, GetProjectStories projectId],
                                currentProjectId = cur\<rparr>)))))"

text \<open>
  \<open>estimate && estimate > 6\<close>: the estimate when the condition holds, for the
  story-too-large branch that prints it.
\<close>

definition too_large :: "rat option \<Rightarrow> rat option" where
  "too_large estimate =
     (case estimate of
        None \<Rightarrow> None
      | Some e \<Rightarrow> if e \<noteq> 0 \<and> e > 6 then Some e else None)"

definition createStory :: "gateway \<Rightarrow> jsnum option \<Rightarrow> jsval \<Rightarrow> outcome" where
  "createStory gw cur args =
     (case CreateStorySchema args of
        Inl e \<Rightarrow> \<lparr>result = Inl e, calls = [], currentProjectId = cur\<rparr>
      | Inr a \<Rightarrow>
          (case or_current (cs_project_id a) cur of
             None \<Rightarrow>
               \<lparr>result = Inl (McpError InvalidRequest NoProjectContext),
                calls = [], currentProjectId = cur\<rparr>
           | Some targetProjectId \<Rightarrow>
               if \<not> truthy_num targetProjectId then
                 \<lparr>result = Inl (McpError InvalidRequest NoProjectContext),
                  calls = [], currentProjectId = cur\<rparr>
               else
                 (case too_large (cs_estimate a) of
                    Some e \<Rightarrow>
                      \<lparr>result = Inr (StoryTooLarge (cs_name a) e),
                       calls = [], currentProjectId = cur\<rparr>
                  | None \<Rightarrow>
                      (let data = \<lparr>d_name = cs_name a, d_description = cs_description a,
                                   d_estimate = cs_estimate a, d_epic_id = cs_epic_id a,
                                   d_project_id = targetProjectId, d_status = Some 1\<rparr>
                       in case client_createStory gw data of
                            Inl m \<Rightarrow>
                              \<lparr>result = Inl (McpError InternalError (FailedToCreateStory m)),
                               calls = [CreateStory data], currentProjectId = cur\<rparr>
                          | Inr story \<Rightarrow>
                              \<lparr>result = Inr (StoryCreated (s_id story) (s_name story)
                                     (str_or (cs_description a) ''No description provided'')
                                     (num_or (cs_estimate a) ''Not estimated'')),
                               calls = [CreateStory data], currentProjectId = cur\<rparr>))))"

definition targetStatus :: "status_arg \<Rightarrow> jsnum" where
  "targetStatus status = (case status of StatusStr s \<Rightarrow> parseInt s | StatusNum r \<Rightarrow> Num r)"

text \<open>\<open>validTransitions[currentStatus]?.includes(targetStatus)\<close>, read as a condition\<close>

definition transition_listed :: "jsnum \<Rightarrow> jsnum \<Rightarrow> bool" where
  "transition_listed currentStatus target =
     (case validTransitions currentStatus of
        None \<Rightarrow> False
      | Some ts \<Rightarrow> target \<in> set ts)"

text \<open>\<open>validTransitions[currentStatus]?.map((s) => statusNames[s]).join(', ')\<close>\<close>

definition valid_next_steps :: "jsnum \<Rightarrow> string option" where
  "valid_next_steps currentStatus =
     (case validTransitions currentStatus of
        None \<Rightarrow> None
      | Some ts \<Rightarrow> Some (join '', '' (map statusNames ts)))"

definition updateStoryStatus :: "gateway \<Rightarrow> jsnum option \<Rightarrow> jsval \<Rightarrow> outcome" where
  "updateStoryStatus gw cur args =
     (case UpdateStoryStatusSchema args of
        Inl e \<Rightarrow> \<lparr>result = Inl e, calls = [], currentProjectId = cur\<rparr>
      | Inr a \<Rightarrow>
          (let story_id = Num (us_story_id a);
               target = targetStatus (us_status a)
           in case client_getStory gw story_id of
                Inl m \<Rightarrow>
                  \<lparr>result = Inl (McpError InternalError (FailedToUpdateStoryStatus m)),
                   calls = [GetStory story_id], currentProjectId = cur\<rparr>
              | Inr currentStory \<Rightarrow>
                  (let currentStatus = story_status currentStory
                   in if \<not> transition_listed currentStatus target then
                        \<lparr>result = Inr (InvalidTransition
                                         (shown (statusNames currentStatus))
                                         (shown (statusNames target))
                                         (shown (statusNames currentStatus))
                                         (shown (valid_next_steps currentStatus))),
                         calls = [GetStory story_id], currentProjectId = cur\<rparr>
                      else
                        (case client_updateStoryStatus gw story_id target of
                           Inl m \<Rightarrow>
                             \<lparr>result = Inl (McpError InternalError (FailedToUpdateStoryStatus m)),
                              calls = [GetStory story_id, UpdateStoryStatus story_id target],
                              currentProjectId = cur\<rparr>
                         | Inr u \<Rightarrow>
                             \<lparr>result = Inr (StoryUpdated (us_story_id a) (s_name currentStory)
                                              (shown (statusNames currentStatus))
                                              (shown (statusNames target))
                                              (case us_notes a of
                                                 None \<Rightarrow> None
                                               | Some n \<Rightarrow> if n \<noteq> [] then Some n else None)
                                              (if target = Num 3 then Some NowInProgress
                                               else if target = Num 5 then Some StoryCompleted
                                               else None)),
                              calls = [GetStory story_id, UpdateStoryStatus story_id target],
                              currentProjectId = cur\<rparr>))))"

text \<open>\<open>status && status !== 'all'\<close>\<close>

definition status_filter :: "string option \<Rightarrow> bool" where
  "status_filter status = (case status of None \<Rightarrow> False | Some s \<Rightarrow> s \<noteq> [] \<and> s \<noteq> ''all'')"

definition filteredStories :: "string option \<Rightarrow> story list \<Rightarrow> story list" where
  "filteredStories status stories =
     (if status_filter status
      then filter (\<lambda>s. story_status s = parseInt (case status of Some t \<Rightarrow> t | None \<Rightarrow> [])) stories
      else stories)"

definition filter_label :: "string option \<Rightarrow> string option" where
  "filter_label status =
     (if status_filter status
      then Some (shown (statusNames (parseInt (case status of Some t \<Rightarrow> t | None \<Rightarrow> []))))
      else None)"

definition story_line :: "story \<Rightarrow> rat \<times> string \<times> string \<times> rat option" where
  "story_line s =
     (s_id s, s_name s, shown (statusNames (story_status s)),
      (case s_estimate s of None \<Rightarrow> None | Some e \<Rightarrow> if e \<noteq> 0 then Some e else None))"

definition listStories :: "gateway \<Rightarrow> jsnum option \<Rightarrow> jsval \<Rightarrow> outcome" where
  "listStories gw cur args =
     (case ListStoriesSchema args of
        Inl e \<Rightarrow> \<lparr>result = Inl e, calls = [], currentProjectId = cur\<rparr>
      | Inr a \<Rightarrow>
          (case or_current (ls_project_id a) cur of
             None \<Rightarrow>
               \<lparr>result = Inl (McpError InvalidRequest NoProjectContext),
                calls = [], currentProjectId = cur\<rparr>
           | Some targetProjectId \<Rightarrow>
               if \<not> truthy_num targetProjectId then
                 \<lparr>result = Inl (McpError InvalidRequest NoProjectContext),
                  calls = [], currentProjectId = cur\<rparr>
               else
                 (case client_getProjectStories gw targetProjectId of
                    Inl m \<Rightarrow>
                      \<lparr>result = Inl (McpError InternalError (FailedToListStories m)),
                       calls = [GetProjectStories targetProjectId], currentProjectId = cur\<rparr>
                  | Inr stories \<Rightarrow>
                      (let fs = filteredStories (ls_status a) stories
                       in if length fs = 0 then
                            \<lparr>result = Inr (NoStoriesFound (filter_label (ls_status a))),
                             calls = [GetProjectStories targetProjectId],
                             currentProjectId = cur\<rparr>
                          else
                            \<lparr>result = Inr (StoryList (filter_label (ls_status a))
                                             (map story_line (take 10 fs))
                                             (if length fs > 10 then Some (length fs - 10)
                                              else None)),
                             calls = [GetProjectStories targetProjectId],
                             currentProjectId = cur\<rparr>))))"

section \<open>The client's health probe\<close>

text \<open>
  What awaiting \<open>this.client.get('/claude-code/health')\<close> gives: the promise rejects
  with an error, or resolves to a response, of which only \<open>data\<close> is read.
\<close>

datatype http_result = Rejected string | Resolved jsval

datatype js_error = TypeError | Error string

text \<open>
  Reading \<open>data.success\<close>: a \<open>TypeError\<close> on \<open>undefined\<close> and \<open>null\<close>, the
  property of an object, and \<open>undefined\<close> on every other value.
\<close>

definition read_success :: "jsval \<Rightarrow> js_error + jsval" where
  "read_success v =
     (case v of
        VUndefined \<Rightarrow> Inl TypeError
      | VNull \<Rightarrow> Inl TypeError
      | VObj fs \<Rightarrow> Inr (get_prop fs ''success'')
      | _ \<Rightarrow> Inr VUndefined)"

text \<open>The body of the \<open>try\<close> block, then the function with its \<open>catch\<close>.\<close>

definition healthCheck_try :: "http_result \<Rightarrow> js_error + bool" where
  "healthCheck_try r =
     (case r of
        Rejected m \<Rightarrow> Inl (Error m)
      | Resolved d \<Rightarrow> (case read_success d of
                         Inl e \<Rightarrow> Inl e
                       | Inr v \<Rightarrow> Inr (v = VBool True)))"

definition healthCheck :: "http_result \<Rightarrow> js_error + bool" where
  "healthCheck r = (case healthCheck_try r of Inl e \<Rightarrow> Inr False | Inr b \<Rightarrow> Inr b)"

section \<open>What an outcome says about the project\<close>

text \<open>
  An operation failed for want of a project when it raised the no-project-context error
  and issued no request. It ran on project \<open>n\<close> when it did not raise that error and
  every request it issued that names a project names \<open>n\<close>.
\<close>

definition no_project_context :: "outcome \<Rightarrow> bool" where
  "no_project_context out =
     (result out = Inl (McpError InvalidRequest NoProjectContext) \<and> calls out = [])"

definition runs_on_project :: "jsnum \<Rightarrow> outcome \<Rightarrow> bool" where
  "runs_on_project n out =
     (result out \<noteq> Inl (McpError InvalidRequest NoProjectContext) \<and>
      list_all (\<lambda>c. call_project c = Some n) (calls out))"

text \<open>
  The resolution rule in words: an explicit project id other than 0 is used; otherwise
  the session context's project id is used when it is set to a number other than 0 (and
  is not \<open>NaN\<close>); otherwise the operation fails for want of a project.
\<close>

definition from_context :: "jsnum option \<Rightarrow> outcome \<Rightarrow> bool" where
  "from_context cur out =
     (case cur of
        None \<Rightarrow> no_project_context out
      | Some n \<Rightarrow> if truthy_num n then runs_on_project n out else no_project_context out)"

definition resolution_rule :: "rat option \<Rightarrow> jsnum option \<Rightarrow> outcome \<Rightarrow> bool" where
  "resolution_rule project_id cur out =
     (case project_id of
        None \<Rightarrow> from_context cur out
      | Some p \<Rightarrow> if p \<noteq> 0 then runs_on_project (Num p) out else from_context cur out)"

text \<open>The fields of an arguments object without its \<open>project_id\<close>.\<close>

definition without_project_id :: "(string \<times> jsval) list \<Rightarrow> (string \<times> jsval) list" where
  "without_project_id fs = filter (\<lambda>kv. fst kv \<noteq> ''project_id'') fs"

section \<open>What a story listing shows\<close>

text \<open>
  The response for the stories kept by the filter, in words: the no-stories-found
  message when none is kept; otherwise the lines of the first ten kept stories at most
  and, when more than ten are kept, the number of those beyond the tenth.
\<close>

definition rendered :: "string option \<Rightarrow> story list \<Rightarrow> response" where
  "rendered label kept =
     (if kept = [] then NoStoriesFound label
      else StoryList label (map story_line (take 10 kept))
             (if 10 < length kept then Some (length kept - 10) else None))"

section \<open>An example backend\<close>

text \<open>
  A backend with one project, number 42, holding the given stories; it accepts every
  write. It serves to run the operations on concrete inputs.
\<close>

definition example_project :: project where
  "example_project = \<lparr>p_id = 42, p_name = ''Demo'', p_progress_percentage = Some 40\<rparr>"

definition example_story :: "rat \<Rightarrow> status_val \<Rightarrow> story" where
  "example_story i st =
     \<lparr>s_id = i, s_name = ''Task'', s_description = None, s_status = st,
      s_estimate = Some 2, s_epic_id = None, s_project_id = 42\<rparr>"

definition example_backend :: "story list \<Rightarrow> gateway" where
  "example_backend stories =
     \<lparr>client_getProject =
        (\<lambda>p. if p = Num 42 then Inr example_project else Inl ''Resource not found.''),
      client_getProjectStories =
        (\<lambda>p. if p = Num 42 then Inr stories else Inl ''Resource not found.''),
      client_createStory =
        (\<lambda>d. Inr \<lparr>s_id = 100, s_name = d_name d, s_description = d_description d,
                   s_status = StNum 1, s_estimate = d_estimate d, s_epic_id = d_epic_id d,
                   s_project_id = 42\<rparr>),
      client_getStory =
        (\<lambda>i. case find (\<lambda>s. Num (s_id s) = i) stories of
               None \<Rightarrow> Inl ''Resource not found.''
             | Some s \<Rightarrow> Inr s),
      client_updateStoryStatus = (\<lambda>i s. Inr ())\<rparr>"

section \<open>Auxiliary facts\<close>

lemmas schema_defs =
  get_prop_def z_number_def z_string_def z_refine_def z_optional_def z_enum_def z_status_def
  UpdateStoryStatusSchema_def CreateStorySchema_def GetProjectSchema_def
  SetProjectContextSchema_def ListStoriesSchema_def

lemmas example_defs = example_backend_def example_story_def example_project_def

lemma parseInt_enum:
  "parseInt ''1'' = Num 1" "parseInt ''3'' = Num 3" "parseInt ''5'' = Num 5"
  by (simp_all add: parseInt_def is_space_def parse_digits_def digit_of_def)

lemma transition_listed_table:
  "transition_listed (Num 1) t = (t = Num 3)"
  "transition_listed (Num 3) t = (t = Num 5 \<or> t = Num 1)"
  "transition_listed (Num 5) t = (t = Num 1 \<or> t = Num 3)"
  by (auto simp add: transition_listed_def validTransitions_def)

lemma transition_listed_other:
  "c \<noteq> Num 1 \<Longrightarrow> c \<noteq> Num 3 \<Longrightarrow> c \<noteq> Num 5 \<Longrightarrow> \<not> transition_listed c t"
  by (simp add: transition_listed_def validTransitions_def)

lemma valid_next_steps_table:
  "valid_next_steps (Num 1) = Some ''In Progress''"
  "valid_next_steps (Num 3) = Some ''Done, Backlog''"
  "valid_next_steps (Num 5) = Some ''Backlog, In Progress''"
  by (simp_all add: valid_next_steps_def validTransitions_def statusNames_def)

lemma updateStoryStatus_fetched:
  assumes "UpdateStoryStatusSchema args = Inr a"
      and "client_getStory gw (Num (us_story_id a)) = Inr st"
  shows "updateStoryStatus gw cur args =
    (if \<not> transition_listed (story_status st) (targetStatus (us_status a)) then
       \<lparr>result = Inr (InvalidTransition
                        (shown (statusNames (story_status st)))
                        (shown (statusNames (targetStatus (us_status a))))
                        (shown (statusNames (story_status st)))
                        (shown (valid_next_steps (story_status st)))),
        calls = [GetStory (Num (us_story_id a))], currentProjectId = cur\<rparr>
     else
       \<lparr>result =
          (case client_updateStoryStatus gw (Num (us_story_id a)) (targetStatus (us_status a)) of
             Inl m \<Rightarrow> Inl (McpError InternalError (FailedToUpdateStoryStatus m))
           | Inr u \<Rightarrow> Inr (StoryUpdated (us_story_id a) (s_name st)
                            (shown (statusNames (story_status st)))
                            (shown (statusNames (targetStatus (us_status a))))
                            (case us_notes a of
                               None \<Rightarrow> None
                             | Some n \<Rightarrow> if n \<noteq> [] then Some n else None)
                            (if targetStatus (us_status a) = Num 3 then Some NowInProgress
                             else if targetStatus (us_status a) = Num 5 then Some StoryCompleted
                             else None))),
        calls = [GetStory (Num (us_story_id a)),
                 UpdateStoryStatus (Num (us_story_id a)) (targetStatus (us_status a))],
        currentProjectId = cur\<rparr>)"
  using assms by (simp add: updateStoryStatus_def Let_def split: sum.splits)

section \<open>The status workflow guard\<close>

text \<open>
  C1. When the fetched story's current status \<open>s\<close> is 1, 3 or 5 and the validated target
  status is \<open>t\<close>, \<open>update_story_status\<close> issues the backend status write exactly when
  \<open>(s, t)\<close> is one of (1,3), (3,5), (3,1), (5,1), (5,3). For every other pair it issues
  no write (the only request is the fetch of the story) and returns, without raising,
  the invalid-transition warning naming the current status, the requested status and
  the allowed next statuses.
\<close>

theorem update_story_status_transition_table:
  assumes "UpdateStoryStatusSchema args = Inr a"
      and "client_getStory gw (Num (us_story_id a)) = Inr st"
      and "story_status st = Num s"
      and "s = 1 \<or> s = 3 \<or> s = 5"
      and "targetStatus (us_status a) = t"
  shows "list_ex is_write (calls (updateStoryStatus gw cur args)) =
           ((Num s, t) \<in> {(Num 1, Num 3), (Num 3, Num 5), (Num 3, Num 1),
                            (Num 5, Num 1), (Num 5, Num 3)}) \<and>
         (if (Num s, t) \<in> {(Num 1, Num 3), (Num 3, Num 5), (Num 3, Num 1),
                            (Num 5, Num 1), (Num 5, Num 3)}
          then calls (updateStoryStatus gw cur args) =
                 [GetStory (Num (us_story_id a)), UpdateStoryStatus (Num (us_story_id a)) t]
          else updateStoryStatus gw cur args =
                 \<lparr>result = Inr (InvalidTransition
                                  (shown (statusNames (Num s)))
                                  (shown (statusNames t))
                                  (shown (statusNames (Num s)))
                                  (if s = 1 then ''In Progress''
                                   else if s = 3 then ''Done, Backlog''
                                   else ''Backlog, In Progress'')),
                  calls = [GetStory (Num (us_story_id a))],
                  currentProjectId = cur\<rparr>)"
  using assms(3,4,5)
  by (auto simp add: updateStoryStatus_fetched[OF assms(1,2)] transition_listed_table
        valid_next_steps_table shown_def)


theorem update_story_status_transition_table_witness:
  "calls (updateStoryStatus (example_backend [example_story 7 (StNum 1)]) None
            (VObj [(''story_id'', VNum (Num 7)), (''status'', VStr ''3'')]))
     = [GetStory (Num 7), UpdateStoryStatus (Num 7) (Num 3)] \<and>
   updateStoryStatus (example_backend [example_story 7 (StNum 1)]) None
            (VObj [(''story_id'', VNum (Num 7)), (''status'', VStr ''5'')])
     = \<lparr>result = Inr (InvalidTransition ''Backlog'' ''Done'' ''Backlog'' ''In Progress''),
        calls = [GetStory (Num 7)], currentProjectId = None\<rparr>"
proof -
  let ?gw = "example_backend [example_story 7 (StNum 1)]"
  let ?a3 = "\<lparr>us_story_id = 7, us_status = StatusStr ''3'', us_notes = None\<rparr>"
  let ?a5 = "\<lparr>us_story_id = 7, us_status = StatusStr ''5'', us_notes = None\<rparr>"
  have p3: "UpdateStoryStatusSchema (VObj [(''story_id'', VNum (Num 7)), (''status'', VStr ''3'')])
              = Inr ?a3"
    by (simp add: schema_defs)
  have p5: "UpdateStoryStatusSchema (VObj [(''story_id'', VNum (Num 7)), (''status'', VStr ''5'')])
              = Inr ?a5"
    by (simp add: schema_defs)
  have g3: "client_getStory ?gw (Num (us_story_id ?a3)) = Inr (example_story 7 (StNum 1))"
    by (simp add: example_defs)
  have g5: "client_getStory ?gw (Num (us_story_id ?a5)) = Inr (example_story 7 (StNum 1))"
    by (simp add: example_defs)
  have st: "story_status (example_story 7 (StNum 1)) = Num 1"
    by (simp add: story_status_def example_defs)
  have t3: "targetStatus (us_status ?a3) = Num 3"
    by (simp add: targetStatus_def parseInt_enum)
  have t5: "targetStatus (us_status ?a5) = Num 5"
    by (simp add: targetStatus_def parseInt_enum)
  have s1: "(1::rat) = 1 \<or> (1::rat) = 3 \<or> (1::rat) = 5" by simp
  show ?thesis
    using update_story_status_transition_table [OF p3 g3 st s1 t3, of None]
          update_story_status_transition_table [OF p5 g5 st s1 t5, of None]
    by (simp add: statusNames_def shown_def)
qed

text \<open>
  C9. When the fetched story's current status is none of 1, 3 and 5 (a backend-supplied
  2 or 4, or a string that is no number), the transition table has no entry for it, and
  every target status is answered with the invalid-transition warning; the backend
  status write is never issued.
\<close>

theorem update_story_status_unlisted_current:
  assumes "UpdateStoryStatusSchema args = Inr a"
      and "client_getStory gw (Num (us_story_id a)) = Inr st"
      and "story_status st \<noteq> Num 1"
      and "story_status st \<noteq> Num 3"
      and "story_status st \<noteq> Num 5"
  shows "validTransitions (story_status st) = None \<and>
         updateStoryStatus gw cur args =
           \<lparr>result = Inr (InvalidTransition ''undefined''
                            (shown (statusNames (targetStatus (us_status a))))
                            ''undefined'' ''undefined''),
            calls = [GetStory (Num (us_story_id a))],
            currentProjectId = cur\<rparr>"
  using assms(3,4,5)
  by (simp add: updateStoryStatus_fetched[OF assms(1,2)] transition_listed_other
        valid_next_steps_def validTransitions_def statusNames_def shown_def)

theorem update_story_status_unlisted_current_witness:
  "story_status (example_story 7 (StNum 2)) = Num 2 \<and>
   story_status (example_story 8 (StStr ''pending'')) = NaN \<and>
   updateStoryStatus (example_backend [example_story 7 (StNum 2)]) None
       (VObj [(''story_id'', VNum (Num 7)), (''status'', VStr ''3'')])
     = \<lparr>result = Inr (InvalidTransition ''undefined'' ''In Progress'' ''undefined'' ''undefined''),
        calls = [GetStory (Num 7)], currentProjectId = None\<rparr>"
proof -
  let ?gw = "example_backend [example_story 7 (StNum 2)]"
  let ?a3 = "\<lparr>us_story_id = 7, us_status = StatusStr ''3'', us_notes = None\<rparr>"
  have p3: "UpdateStoryStatusSchema (VObj [(''story_id'', VNum (Num 7)), (''status'', VStr ''3'')])
              = Inr ?a3"
    by (simp add: schema_defs)
  have g3: "client_getStory ?gw (Num (us_story_id ?a3)) = Inr (example_story 7 (StNum 2))"
    by (simp add: example_defs)
  have st: "story_status (example_story 7 (StNum 2)) = Num 2"
    by (simp add: story_status_def example_defs)
  have n1: "story_status (example_story 7 (StNum 2)) \<noteq> Num 1" using st by simp
  have n3: "story_status (example_story 7 (StNum 2)) \<noteq> Num 3" using st by simp
  have n5: "story_status (example_story 7 (StNum 2)) \<noteq> Num 5" using st by simp
  have nan: "story_status (example_story 8 (StStr ''pending'')) = NaN"
    by (simp add: story_status_def example_defs parseInt_def is_space_def parse_digits_def digit_of_def)
  have t3: "targetStatus (us_status ?a3) = Num 3"
    by (simp add: targetStatus_def parseInt_enum)
  show ?thesis
    using update_story_status_unlisted_current [OF p3 g3 n1 n3 n5, of None] st nan t3
    by (simp add: statusNames_def shown_def)
qed


text \<open>
  C6. Argument validation of \<open>update_story_status\<close> is claimed to reject every status
  outside 1, 3 and 5 before any network call. The numeric status 2 passes validation
  (the string \<open>2\<close> does not): the story is fetched, and the guard answers with the
  warning, whose target name is \<open>undefined\<close>. The number 2.5 passes validation as
  well and stays 2.5, which is no integer.
\<close>

theorem update_story_status_numeric_two:
  "UpdateStoryStatusSchema (VObj [(''story_id'', VNum (Num 7)), (''status'', VNum (Num 2))])
     = Inr \<lparr>us_story_id = 7, us_status = StatusNum 2, us_notes = None\<rparr> \<and>
   targetStatus (StatusNum 2) = Num 2 \<and>
   updateStoryStatus (example_backend [example_story 7 (StNum 1)]) None
       (VObj [(''story_id'', VNum (Num 7)), (''status'', VNum (Num 2))])
     = \<lparr>result = Inr (InvalidTransition ''Backlog'' ''undefined'' ''Backlog'' ''In Progress''),
        calls = [GetStory (Num 7)], currentProjectId = None\<rparr> \<and>
   UpdateStoryStatusSchema (VObj [(''story_id'', VNum (Num 7)), (''status'', VStr ''2'')])
     = Inl ZodError \<and>
   UpdateStoryStatusSchema (VObj [(''story_id'', VNum (Num 7)), (''status'', VNum (Num (5 / 2)))])
     = Inr \<lparr>us_story_id = 7, us_status = StatusNum (5 / 2), us_notes = None\<rparr> \<and>
   targetStatus (StatusNum (5 / 2)) = Num (5 / 2)"
  by (simp add: schema_defs updateStoryStatus_def example_defs targetStatus_def story_status_def
        transition_listed_def valid_next_steps_def validTransitions_def statusNames_def shown_def)


section \<open>The session context\<close>

text \<open>
  C5. \<open>set_project_context\<close> leaves the session context as it was (set or unset) when
  validation fails or when the validating project fetch fails, and then raises; it
  overwrites the context with the given project id when the fetch succeeds, and in no
  other case does the context change.
\<close>

theorem set_project_context_only_on_success:
  "(\<forall>e. SetProjectContextSchema args = Inl e \<longrightarrow>
        setProjectContext gw cur args = \<lparr>result = Inl e, calls = [], currentProjectId = cur\<rparr>) \<and>
   (\<forall>project_id m. SetProjectContextSchema args = Inr project_id \<and>
        client_getProject gw (Num project_id) = Inl m \<longrightarrow>
        setProjectContext gw cur args =
          \<lparr>result = Inl (McpError InvalidRequest (FailedToSetProjectContext m)),
           calls = [GetProject (Num project_id)], currentProjectId = cur\<rparr>) \<and>
   (\<forall>project_id p. SetProjectContextSchema args = Inr project_id \<and>
        client_getProject gw (Num project_id) = Inr p \<longrightarrow>
        setProjectContext gw cur args =
          \<lparr>result = Inr (ContextSet (p_name p) project_id (or_zero (p_progress_percentage p))),
           calls = [GetProject (Num project_id)],
           currentProjectId = Some (Num project_id)\<rparr>) \<and>
   (currentProjectId (setProjectContext gw cur args) \<noteq> cur \<longrightarrow>
      (\<exists>project_id p. SetProjectContextSchema args = Inr project_id \<and>
         client_getProject gw (Num project_id) = Inr p \<and>
         currentProjectId (setProjectContext gw cur args) = Some (Num project_id)))"
proof (intro conjI allI impI)
  fix e assume "SetProjectContextSchema args = Inl e"
  then show "setProjectContext gw cur args = \<lparr>result = Inl e, calls = [], currentProjectId = cur\<rparr>"
    by (simp add: setProjectContext_def)
next
  fix project_id m
  assume "SetProjectContextSchema args = Inr project_id \<and>
        client_getProject gw (Num project_id) = Inl m"
  then show "setProjectContext gw cur args =
          \<lparr>result = Inl (McpError InvalidRequest (FailedToSetProjectContext m)),
           calls = [GetProject (Num project_id)], currentProjectId = cur\<rparr>"
    by (simp add: setProjectContext_def)
next
  fix project_id p
  assume "SetProjectContextSchema args = Inr project_id \<and>
        client_getProject gw (Num project_id) = Inr p"
  then show "setProjectContext gw cur args =
          \<lparr>result = Inr (ContextSet (p_name p) project_id (or_zero (p_progress_percentage p))),
           calls = [GetProject (Num project_id)],
           currentProjectId = Some (Num project_id)\<rparr>"
    by (simp add: setProjectContext_def)
next
  assume ch: "currentProjectId (setProjectContext gw cur args) \<noteq> cur"
  show "\<exists>project_id p. SetProjectContextSchema args = Inr project_id \<and>
         client_getProject gw (Num project_id) = Inr p \<and>
         currentProjectId (setProjectContext gw cur args) = Some (Num project_id)"
  proof (cases "SetProjectContextSchema args")
    case (Inl e)
    with ch show ?thesis by (simp add: setProjectContext_def)
  next
    case (Inr project_id)
    show ?thesis
    proof (cases "client_getProject gw (Num project_id)")
      case (Inl m)
      with Inr ch show ?thesis by (simp add: setProjectContext_def)
    next
      case (Inr p)
      with \<open>SetProjectContextSchema args = Inr project_id\<close> show ?thesis
        by (simp add: setProjectContext_def)
    qed
  qed
qed


theorem set_project_context_only_on_success_witness:
  "setProjectContext (example_backend []) (Some (Num 5)) (VObj [(''project_id'', VNum (Num 41))])
     = \<lparr>result = Inl (McpError InvalidRequest (FailedToSetProjectContext ''Resource not found.'')),
        calls = [GetProject (Num 41)], currentProjectId = Some (Num 5)\<rparr> \<and>
   setProjectContext (example_backend []) None (VObj [(''project_id'', VNum (Num 41))])
     = \<lparr>result = Inl (McpError InvalidRequest (FailedToSetProjectContext ''Resource not found.'')),
        calls = [GetProject (Num 41)], currentProjectId = None\<rparr> \<and>
   setProjectContext (example_backend []) (Some (Num 5)) (VObj [(''project_id'', VNum (Num 42))])
     = \<lparr>result = Inr (ContextSet ''Demo'' 42 40),
        calls = [GetProject (Num 42)], currentProjectId = Some (Num 42)\<rparr>"
proof -
  let ?gw = "example_backend []"
  let ?a41 = "VObj [(''project_id'', VNum (Num 41))]"
  let ?a42 = "VObj [(''project_id'', VNum (Num 42))]"
  have p41: "SetProjectContextSchema ?a41 = Inr 41"
    by (simp add: schema_defs)
  have p42: "SetProjectContextSchema ?a42 = Inr 42"
    by (simp add: schema_defs)
  have f41: "client_getProject ?gw (Num 41) = Inl ''Resource not found.''"
    by (simp add: example_defs)
  have f42: "client_getProject ?gw (Num 42) = Inr example_project"
    by (simp add: example_defs)
  have n: "p_name example_project = ''Demo''"
          "or_zero (p_progress_percentage example_project) = 40"
    by (simp_all add: example_project_def or_zero_def)
  note t = set_project_context_only_on_success
  from t [of ?a41 ?gw "Some (Num 5)"] p41 f41
  have r1: "setProjectContext ?gw (Some (Num 5)) ?a41
     = \<lparr>result = Inl (McpError InvalidRequest (FailedToSetProjectContext ''Resource not found.'')),
        calls = [GetProject (Num 41)], currentProjectId = Some (Num 5)\<rparr>"
    by blast
  from t [of ?a41 ?gw None] p41 f41
  have r2: "setProjectContext ?gw None ?a41
     = \<lparr>result = Inl (McpError InvalidRequest (FailedToSetProjectContext ''Resource not found.'')),
        calls = [GetProject (Num 41)], currentProjectId = None\<rparr>"
    by blast
  from t [of ?a42 ?gw "Some (Num 5)"] p42 f42
  have r3: "setProjectContext ?gw (Some (Num 5)) ?a42
     = \<lparr>result = Inr (ContextSet (p_name example_project) 42
                       (or_zero (p_progress_percentage example_project))),
        calls = [GetProject (Num 42)], currentProjectId = Some (Num 42)\<rparr>"
    by blast
  from r1 r2 r3 n show ?thesis by simp
qed

section \<open>Story creation\<close>

lemma createStory_calls:
  "calls (createStory gw cur args) = [] \<or>
   (\<exists>a n. CreateStorySchema args = Inr a \<and> or_current (cs_project_id a) cur = Some n \<and>
      truthy_num n \<and> too_large (cs_estimate a) = None \<and>
      calls (createStory gw cur args) =
        [CreateStory \<lparr>d_name = cs_name a, d_description = cs_description a,
                       d_estimate = cs_estimate a, d_epic_id = cs_epic_id a,
                       d_project_id = n, d_status = Some 1\<rparr>])"
proof (cases "CreateStorySchema args")
  case (Inl e)
  then show ?thesis by (simp add: createStory_def)
next
  case (Inr a)
  show ?thesis
  proof (cases "or_current (cs_project_id a) cur")
    case None
    with Inr show ?thesis by (simp add: createStory_def)
  next
    case (Some n)
    show ?thesis
    proof (cases "truthy_num n")
      case False
      with Inr Some show ?thesis by (simp add: createStory_def)
    next
      case True
      show ?thesis
      proof (cases "too_large (cs_estimate a)")
        case (Some e)
        with Inr \<open>or_current (cs_project_id a) cur = Some n\<close> True show ?thesis
          by (simp add: createStory_def)
      next
        case None
        with Inr \<open>or_current (cs_project_id a) cur = Some n\<close> True show ?thesis
          by (simp add: createStory_def Let_def split: sum.splits)
      qed
    qed
  qed
qed

lemma createStory_resolved:
  assumes "CreateStorySchema args = Inr a"
      and "or_current (cs_project_id a) cur = Some n"
      and "truthy_num n"
  shows "createStory gw cur args =
     (case too_large (cs_estimate a) of
        Some e \<Rightarrow> \<lparr>result = Inr (StoryTooLarge (cs_name a) e), calls = [],
                   currentProjectId = cur\<rparr>
      | None \<Rightarrow>
          \<lparr>result =
             (case client_createStory gw
                     \<lparr>d_name = cs_name a, d_description = cs_description a,
                      d_estimate = cs_estimate a, d_epic_id = cs_epic_id a,
                      d_project_id = n, d_status = Some 1\<rparr> of
                Inl m \<Rightarrow> Inl (McpError InternalError (FailedToCreateStory m))
              | Inr story \<Rightarrow>
                  Inr (StoryCreated (s_id story) (s_name story)
                         (str_or (cs_description a) ''No description provided'')
                         (num_or (cs_estimate a) ''Not estimated''))),
           calls = [CreateStory \<lparr>d_name = cs_name a, d_description = cs_description a,
                                  d_estimate = cs_estimate a, d_epic_id = cs_epic_id a,
                                  d_project_id = n, d_status = Some 1\<rparr>],
           currentProjectId = cur\<rparr>)"
  using assms by (simp add: createStory_def Let_def split: sum.splits option.splits)

text \<open>
  C4. Every backend write that \<open>create_story\<close> issues carries the initial status 1
  (Backlog), whatever the arguments are: with or without an estimate, and also when the
  arguments hold a status field of their own.
\<close>

theorem create_story_initial_status:
  assumes "CreateStory d \<in> set (calls (createStory gw cur args))"
  shows "d_status d = Some 1"
  using assms createStory_calls [of gw cur args] by auto


theorem create_story_initial_status_witness:
  "calls (createStory (example_backend []) (Some (Num 42))
            (VObj [(''name'', VStr ''Add login''), (''status'', VNum (Num 5))]))
     = [CreateStory \<lparr>d_name = ''Add login'', d_description = None, d_estimate = None,
                     d_epic_id = None, d_project_id = Num 42, d_status = Some 1\<rparr>]"
proof -
  let ?out = "createStory (example_backend []) (Some (Num 42))
                (VObj [(''name'', VStr ''Add login''), (''status'', VNum (Num 5))])"
  have "\<exists>st. calls ?out =
          [CreateStory \<lparr>d_name = ''Add login'', d_description = None, d_estimate = None,
                         d_epic_id = None, d_project_id = Num 42, d_status = st\<rparr>]"
    by (simp add: createStory_def schema_defs or_current_def too_large_def example_defs)
  then obtain st where c: "calls ?out =
          [CreateStory \<lparr>d_name = ''Add login'', d_description = None, d_estimate = None,
                         d_epic_id = None, d_project_id = Num 42, d_status = st\<rparr>]"
    by blast
  then have "CreateStory \<lparr>d_name = ''Add login'', d_description = None, d_estimate = None,
                         d_epic_id = None, d_project_id = Num 42, d_status = st\<rparr>
               \<in> set (calls ?out)"
    by simp
  from create_story_initial_status [OF this] have "st = Some 1" by simp
  with c show ?thesis by simp
qed

text \<open>
  C3, as the claim states it, would have every valid input with an estimate above 6
  answered by the story-too-large warning. The project id is resolved first: with no
  explicit project id and no session context, such an input fails with the
  no-project-context error instead.
\<close>

theorem create_story_too_large_without_context:
  "CreateStorySchema (VObj [(''name'', VStr ''Rewrite billing''), (''estimate'', VNum (Num 7))])
     = Inr \<lparr>cs_name = ''Rewrite billing'', cs_description = None, cs_estimate = Some 7,
            cs_epic_id = None, cs_project_id = None\<rparr> \<and>
   createStory (example_backend []) None
       (VObj [(''name'', VStr ''Rewrite billing''), (''estimate'', VNum (Num 7))])
     = \<lparr>result = Inl (McpError InvalidRequest NoProjectContext), calls = [],
        currentProjectId = None\<rparr>"
  by (simp add: createStory_def schema_defs or_current_def)

text \<open>
  C3, amended. For a valid \<open>create_story\<close> input whose project id resolves (the
  explicit id or the session context gives a usable id \<open>n\<close>): with an estimate above 6
  no request is issued and the response is the story-too-large warning naming the story
  and the estimate; with an estimate of 6 or of 1 the backend write is issued, for project
  \<open>n\<close> and with status 1, and the creation confirmation is returned when the backend
  accepts the write.
\<close>

theorem create_story_size_rule:
  assumes "CreateStorySchema args = Inr a"
      and "or_current (cs_project_id a) cur = Some n"
      and "truthy_num n"
      and "cs_estimate a = Some e"
      and "data = \<lparr>d_name = cs_name a, d_description = cs_description a,
                    d_estimate = Some e, d_epic_id = cs_epic_id a,
                    d_project_id = n, d_status = Some 1\<rparr>"
  shows "(6 < e \<longrightarrow>
            createStory gw cur args =
              \<lparr>result = Inr (StoryTooLarge (cs_name a) e), calls = [],
               currentProjectId = cur\<rparr>) \<and>
         (e = 6 \<or> e = 1 \<longrightarrow>
            calls (createStory gw cur args) = [CreateStory data] \<and>
            (\<forall>story. client_createStory gw data = Inr story \<longrightarrow>
               result (createStory gw cur args) =
                 Inr (StoryCreated (s_id story) (s_name story)
                        (str_or (cs_description a) ''No description provided'')
                        (PNum e))))"
proof (intro conjI allI impI)
  assume "6 < e"
  with assms(4) have "too_large (cs_estimate a) = Some e" by (simp add: too_large_def)
  then show "createStory gw cur args =
              \<lparr>result = Inr (StoryTooLarge (cs_name a) e), calls = [],
               currentProjectId = cur\<rparr>"
    by (simp add: createStory_resolved [OF assms(1,2,3)])
next
  assume "e = 6 \<or> e = 1"
  with assms(4) have "too_large (cs_estimate a) = None" by (auto simp add: too_large_def)
  with assms(4,5) show "calls (createStory gw cur args) = [CreateStory data]"
    by (simp add: createStory_resolved [OF assms(1,2,3)])
next
  fix story
  assume e: "e = 6 \<or> e = 1" and w: "client_createStory gw data = Inr story"
  from e assms(4) have t: "too_large (cs_estimate a) = None" by (auto simp add: too_large_def)
  from e assms(4) have p: "num_or (cs_estimate a) ''Not estimated'' = PNum e"
    by (auto simp add: num_or_def)
  from t w p assms(4,5) show "result (createStory gw cur args) =
                 Inr (StoryCreated (s_id story) (s_name story)
                        (str_or (cs_description a) ''No description provided'')
                        (PNum e))"
    by (simp add: createStory_resolved [OF assms(1,2,3)])
qed

theorem create_story_size_rule_witness:
  "createStory (example_backend []) (Some (Num 42))
       (VObj [(''name'', VStr ''Rewrite billing''), (''estimate'', VNum (Num 7))])
     = \<lparr>result = Inr (StoryTooLarge ''Rewrite billing'' 7), calls = [],
        currentProjectId = Some (Num 42)\<rparr> \<and>
   calls (createStory (example_backend []) None
       (VObj [(''name'', VStr ''Add login''), (''estimate'', VNum (Num 6)),
              (''project_id'', VNum (Num 42))]))
     = [CreateStory \<lparr>d_name = ''Add login'', d_description = None, d_estimate = Some 6,
                     d_epic_id = None, d_project_id = Num 42, d_status = Some 1\<rparr>] \<and>
   result (createStory (example_backend []) None
       (VObj [(''name'', VStr ''Add login''), (''estimate'', VNum (Num 6)),
              (''project_id'', VNum (Num 42))]))
     = Inr (StoryCreated 100 ''Add login'' ''No description provided'' (PNum 6))"
proof -
  let ?gw = "example_backend []"
  let ?x7 = "VObj [(''name'', VStr ''Rewrite billing''), (''estimate'', VNum (Num 7))]"
  let ?a7 = "\<lparr>cs_name = ''Rewrite billing'', cs_description = None, cs_estimate = Some 7,
              cs_epic_id = None, cs_project_id = None\<rparr>"
  let ?x6 = "VObj [(''name'', VStr ''Add login''), (''estimate'', VNum (Num 6)),
                   (''project_id'', VNum (Num 42))]"
  let ?a6 = "\<lparr>cs_name = ''Add login'', cs_description = None, cs_estimate = Some 6,
              cs_epic_id = None, cs_project_id = Some 42\<rparr>"
  let ?d6 = "\<lparr>d_name = ''Add login'', d_description = None, d_estimate = Some 6,
              d_epic_id = None, d_project_id = Num 42, d_status = Some 1\<rparr>"
  let ?s6 = "\<lparr>s_id = 100, s_name = ''Add login'', s_description = None,
              s_status = StNum 1, s_estimate = Some 6, s_epic_id = None,
              s_project_id = 42\<rparr>"
  have p7: "CreateStorySchema ?x7 = Inr ?a7" by (simp add: schema_defs)
  have p6: "CreateStorySchema ?x6 = Inr ?a6" by (simp add: schema_defs)
  have r7: "or_current (cs_project_id ?a7) (Some (Num 42)) = Some (Num 42)"
    by (simp add: or_current_def)
  have r6: "or_current (cs_project_id ?a6) None = Some (Num 42)"
    by (simp add: or_current_def)
  have t: "truthy_num (Num 42)" by simp
  have e7: "cs_estimate ?a7 = Some 7" by simp
  have e6: "cs_estimate ?a6 = Some 6" by simp
  have d6: "?d6 = \<lparr>d_name = cs_name ?a6, d_description = cs_description ?a6,
                    d_estimate = Some 6, d_epic_id = cs_epic_id ?a6,
                    d_project_id = Num 42, d_status = Some 1\<rparr>"
    by simp
  have w6: "client_createStory ?gw ?d6 = Inr ?s6" by (simp add: example_defs)
  from create_story_size_rule [OF p7 r7 t e7 refl, of ?gw]
  have c7: "createStory ?gw (Some (Num 42)) ?x7
     = \<lparr>result = Inr (StoryTooLarge ''Rewrite billing'' 7), calls = [],
        currentProjectId = Some (Num 42)\<rparr>"
    by simp
  from create_story_size_rule [OF p6 r6 t e6 d6, of ?gw] w6
  have c6: "calls (createStory ?gw None ?x6) = [CreateStory ?d6] \<and>
            result (createStory ?gw None ?x6) =
              Inr (StoryCreated 100 ''Add login'' ''No description provided'' (PNum 6))"
    by (simp add: str_or_def)
  from c7 c6 show ?thesis by simp
qed

section \<open>Project-id resolution\<close>

lemma resolution_ruleI:
  assumes "\<And>n. or_current project_id cur = Some n \<Longrightarrow> truthy_num n \<Longrightarrow> runs_on_project n out"
      and "or_current project_id cur = None \<Longrightarrow> no_project_context out"
      and "\<And>n. or_current project_id cur = Some n \<Longrightarrow> \<not> truthy_num n \<Longrightarrow> no_project_context out"
  shows "resolution_rule project_id cur out"
proof (cases project_id)
  case None
  then have oc: "or_current project_id cur = cur" by (simp add: or_current_def)
  show ?thesis
  proof (cases cur)
    case None
    with oc assms(2) \<open>project_id = None\<close> show ?thesis
      by (simp add: resolution_rule_def from_context_def)
  next
    case (Some n)
    with oc assms(1)[of n] assms(3)[of n] \<open>project_id = None\<close> show ?thesis
      by (simp add: resolution_rule_def from_context_def)
  qed
next
  case (Some p)
  show ?thesis
  proof (cases "p = 0")
    case False
    with Some have "or_current project_id cur = Some (Num p)" by (simp add: or_current_def)
    with assms(1)[of "Num p"] False Some show ?thesis
      by (simp add: resolution_rule_def)
  next
    case True
    with Some have oc: "or_current project_id cur = cur" by (simp add: or_current_def)
    show ?thesis
    proof (cases cur)
      case None
      with oc assms(2) Some True show ?thesis
        by (simp add: resolution_rule_def from_context_def)
    next
      case (Some n)
      with oc assms(1)[of n] assms(3)[of n] \<open>project_id = Some p\<close> True show ?thesis
        by (simp add: resolution_rule_def from_context_def)
    qed
  qed
qed

lemma getProjectInfo_unresolved:
  assumes "GetProjectSchema args = Inr project_id"
      and "or_current project_id cur = None \<or>
           (\<exists>n. or_current project_id cur = Some n \<and> \<not> truthy_num n)"
  shows "getProjectInfo gw cur args =
           \<lparr>result = Inl (McpError InvalidRequest NoProjectContext), calls = [],
            currentProjectId = cur\<rparr>"
  using assms by (auto simp add: getProjectInfo_def)

lemma getProjectInfo_resolved:
  assumes "GetProjectSchema args = Inr project_id"
      and "or_current project_id cur = Some n"
      and "truthy_num n"
  shows "result (getProjectInfo gw cur args) \<noteq> Inl (McpError InvalidRequest NoProjectContext)"
    and "calls (getProjectInfo gw cur args) = [GetProject n] \<or>
         calls (getProjectInfo gw cur args) = [GetProject n, GetProjectStories n]"
  using assms by (auto simp add: getProjectInfo_def Let_def split: sum.splits)

lemma createStory_unresolved:
  assumes "CreateStorySchema args = Inr a"
      and "or_current (cs_project_id a) cur = None \<or>
           (\<exists>n. or_current (cs_project_id a) cur = Some n \<and> \<not> truthy_num n)"
  shows "createStory gw cur args =
           \<lparr>result = Inl (McpError InvalidRequest NoProjectContext), calls = [],
            currentProjectId = cur\<rparr>"
  using assms by (auto simp add: createStory_def)

lemma listStories_unresolved:
  assumes "ListStoriesSchema args = Inr a"
      and "or_current (ls_project_id a) cur = None \<or>
           (\<exists>n. or_current (ls_project_id a) cur = Some n \<and> \<not> truthy_num n)"
  shows "listStories gw cur args =
           \<lparr>result = Inl (McpError InvalidRequest NoProjectContext), calls = [],
            currentProjectId = cur\<rparr>"
  using assms by (auto simp add: listStories_def)

lemma listStories_resolved:
  assumes "ListStoriesSchema args = Inr a"
      and "or_current (ls_project_id a) cur = Some n"
      and "truthy_num n"
  shows "listStories gw cur args =
     \<lparr>result =
        (case client_getProjectStories gw n of
           Inl m \<Rightarrow> Inl (McpError InternalError (FailedToListStories m))
         | Inr stories \<Rightarrow>
             Inr (if length (filteredStories (ls_status a) stories) = 0
                  then NoStoriesFound (filter_label (ls_status a))
                  else StoryList (filter_label (ls_status a))
                         (map story_line (take 10 (filteredStories (ls_status a) stories)))
                         (if length (filteredStories (ls_status a) stories) > 10
                          then Some (length (filteredStories (ls_status a) stories) - 10)
                          else None))),
      calls = [GetProjectStories n], currentProjectId = cur\<rparr>"
  using assms by (simp add: listStories_def Let_def split: sum.splits)


lemma getProjectInfo_resolution:
  assumes "GetProjectSchema args = Inr project_id"
  shows "resolution_rule project_id cur (getProjectInfo gw cur args)"
proof (rule resolution_ruleI)
  fix n assume "or_current project_id cur = Some n" "truthy_num n"
  from getProjectInfo_resolved [OF assms this, of gw]
  show "runs_on_project n (getProjectInfo gw cur args)"
    by (auto simp add: runs_on_project_def)
next
  assume "or_current project_id cur = None"
  then show "no_project_context (getProjectInfo gw cur args)"
    by (simp add: getProjectInfo_unresolved [OF assms] no_project_context_def)
next
  fix n assume "or_current project_id cur = Some n" "\<not> truthy_num n"
  then show "no_project_context (getProjectInfo gw cur args)"
    by (simp add: getProjectInfo_unresolved [OF assms] no_project_context_def)
qed

lemma createStory_resolution:
  assumes "CreateStorySchema args = Inr a"
  shows "resolution_rule (cs_project_id a) cur (createStory gw cur args)"
proof (rule resolution_ruleI)
  fix n assume "or_current (cs_project_id a) cur = Some n" "truthy_num n"
  then show "runs_on_project n (createStory gw cur args)"
    by (simp add: createStory_resolved [OF assms] runs_on_project_def
          split: option.splits sum.splits)
next
  assume "or_current (cs_project_id a) cur = None"
  then show "no_project_context (createStory gw cur args)"
    by (simp add: createStory_unresolved [OF assms] no_project_context_def)
next
  fix n assume "or_current (cs_project_id a) cur = Some n" "\<not> truthy_num n"
  then show "no_project_context (createStory gw cur args)"
    by (simp add: createStory_unresolved [OF assms] no_project_context_def)
qed

lemma listStories_resolution:
  assumes "ListStoriesSchema args = Inr a"
  shows "resolution_rule (ls_project_id a) cur (listStories gw cur args)"
proof (rule resolution_ruleI)
  fix n assume "or_current (ls_project_id a) cur = Some n" "truthy_num n"
  then show "runs_on_project n (listStories gw cur args)"
    by (simp add: listStories_resolved [OF assms] runs_on_project_def split: sum.splits)
next
  assume "or_current (ls_project_id a) cur = None"
  then show "no_project_context (listStories gw cur args)"
    by (simp add: listStories_unresolved [OF assms] no_project_context_def)
next
  fix n assume "or_current (ls_project_id a) cur = Some n" "\<not> truthy_num n"
  then show "no_project_context (listStories gw cur args)"
    by (simp add: listStories_unresolved [OF assms] no_project_context_def)
qed

lemma getProjectInfo_no_call:
  assumes "GetProjectSchema args = Inr project_id"
      and "calls (getProjectInfo gw cur args) = []"
  shows "no_project_context (getProjectInfo gw cur args)"
proof (cases "or_current project_id cur")
  case None
  then show ?thesis
    by (simp add: getProjectInfo_unresolved [OF assms(1)] no_project_context_def)
next
  case (Some n)
  show ?thesis
  proof (cases "truthy_num n")
    case True
    from getProjectInfo_resolved(2) [OF assms(1) Some True, of gw] assms(2)
    show ?thesis by simp
  next
    case False
    with Some show ?thesis
      by (simp add: getProjectInfo_unresolved [OF assms(1)] no_project_context_def)
  qed
qed

lemma listStories_no_call:
  assumes "ListStoriesSchema args = Inr a"
      and "calls (listStories gw cur args) = []"
  shows "no_project_context (listStories gw cur args)"
proof (cases "or_current (ls_project_id a) cur")
  case None
  then show ?thesis
    by (simp add: listStories_unresolved [OF assms(1)] no_project_context_def)
next
  case (Some n)
  show ?thesis
  proof (cases "truthy_num n")
    case True
    from assms(2) show ?thesis
      by (simp add: listStories_resolved [OF assms(1) Some True])
  next
    case False
    with Some show ?thesis
      by (simp add: listStories_unresolved [OF assms(1)] no_project_context_def)
  qed
qed

lemma get_prop_without_project_id:
  "get_prop (without_project_id fs) k =
     (if k = ''project_id'' then VUndefined else get_prop fs k)"
  by (induction fs) (auto simp add: get_prop_def without_project_id_def)

lemma CreateStorySchema_zero_project_id:
  assumes "get_prop fs ''project_id'' = VNum (Num 0)"
  shows "CreateStorySchema (VObj (without_project_id fs)) =
           (case CreateStorySchema (VObj fs) of
              Inl e \<Rightarrow> Inl e
            | Inr a \<Rightarrow> Inr (a\<lparr>cs_project_id := None\<rparr>))"
    and "CreateStorySchema (VObj fs) = Inr a \<Longrightarrow> cs_project_id a = Some 0"
  using assms
  by (auto simp add: CreateStorySchema_def get_prop_without_project_id z_optional_def
        z_number_def split: option.splits)

lemma ListStoriesSchema_zero_project_id:
  assumes "get_prop fs ''project_id'' = VNum (Num 0)"
  shows "ListStoriesSchema (VObj (without_project_id fs)) =
           (case ListStoriesSchema (VObj fs) of
              Inl e \<Rightarrow> Inl e
            | Inr a \<Rightarrow> Inr (a\<lparr>ls_project_id := None\<rparr>))"
    and "ListStoriesSchema (VObj fs) = Inr a \<Longrightarrow> ls_project_id a = Some 0"
  using assms
  by (auto simp add: ListStoriesSchema_def get_prop_without_project_id z_optional_def
        z_number_def split: option.splits)

lemma createStory_zero_project_id:
  assumes "get_prop fs ''project_id'' = VNum (Num 0)"
  shows "createStory gw cur (VObj fs) = createStory gw cur (VObj (without_project_id fs))"
proof (cases "CreateStorySchema (VObj fs)")
  case (Inl e)
  with CreateStorySchema_zero_project_id(1) [OF assms] show ?thesis
    by (simp add: createStory_def)
next
  case (Inr a)
  from CreateStorySchema_zero_project_id(2) [OF assms Inr] have z: "cs_project_id a = Some 0" .
  from CreateStorySchema_zero_project_id(1) [OF assms] Inr
  have w: "CreateStorySchema (VObj (without_project_id fs)) = Inr (a\<lparr>cs_project_id := None\<rparr>)"
    by simp
  let ?b = "a\<lparr>cs_project_id := None\<rparr>"
  from z have oc: "or_current (cs_project_id a) cur = cur"
                  "or_current (cs_project_id ?b) cur = cur"
    by (simp_all add: or_current_def)
  show ?thesis
  proof (cases "\<exists>n. cur = Some n \<and> truthy_num n")
    case True
    then obtain n where n: "cur = Some n" "truthy_num n" by blast
    from oc n have "or_current (cs_project_id a) cur = Some n"
                   "or_current (cs_project_id ?b) cur = Some n"
      by simp_all
    from createStory_resolved [OF Inr this(1) n(2), of gw]
         createStory_resolved [OF w this(2) n(2), of gw]
    show ?thesis by (simp split: option.splits sum.splits)
  next
    case False
    with oc have "or_current (cs_project_id a) cur = None \<or>
           (\<exists>n. or_current (cs_project_id a) cur = Some n \<and> \<not> truthy_num n)"
         "or_current (cs_project_id ?b) cur = None \<or>
           (\<exists>n. or_current (cs_project_id ?b) cur = Some n \<and> \<not> truthy_num n)"
      by (cases cur; simp)+
    from createStory_unresolved [OF Inr this(1), of gw]
         createStory_unresolved [OF w this(2), of gw]
    show ?thesis by simp
  qed
qed

lemma listStories_zero_project_id:
  assumes "get_prop fs ''project_id'' = VNum (Num 0)"
  shows "listStories gw cur (VObj fs) = listStories gw cur (VObj (without_project_id fs))"
proof (cases "ListStoriesSchema (VObj fs)")
  case (Inl e)
  with ListStoriesSchema_zero_project_id(1) [OF assms] show ?thesis
    by (simp add: listStories_def)
next
  case (Inr a)
  from ListStoriesSchema_zero_project_id(2) [OF assms Inr] have z: "ls_project_id a = Some 0" .
  from ListStoriesSchema_zero_project_id(1) [OF assms] Inr
  have w: "ListStoriesSchema (VObj (without_project_id fs)) = Inr (a\<lparr>ls_project_id := None\<rparr>)"
    by simp
  let ?b = "a\<lparr>ls_project_id := None\<rparr>"
  from z have oc: "or_current (ls_project_id a) cur = cur"
                  "or_current (ls_project_id ?b) cur = cur"
    by (simp_all add: or_current_def)
  show ?thesis
  proof (cases "\<exists>n. cur = Some n \<and> truthy_num n")
    case True
    then obtain n where n: "cur = Some n" "truthy_num n" by blast
    from oc n have "or_current (ls_project_id a) cur = Some n"
                   "or_current (ls_project_id ?b) cur = Some n"
      by simp_all
    from listStories_resolved [OF Inr this(1) n(2), of gw]
         listStories_resolved [OF w this(2) n(2), of gw]
    show ?thesis by (simp split: sum.splits)
  next
    case False
    with oc have "or_current (ls_project_id a) cur = None \<or>
           (\<exists>n. or_current (ls_project_id a) cur = Some n \<and> \<not> truthy_num n)"
         "or_current (ls_project_id ?b) cur = None \<or>
           (\<exists>n. or_current (ls_project_id ?b) cur = Some n \<and> \<not> truthy_num n)"
      by (cases cur; simp)+
    from listStories_unresolved [OF Inr this(1), of gw]
         listStories_unresolved [OF w this(2), of gw]
    show ?thesis by simp
  qed
qed

text \<open>
  C2, as the claim states it, has an explicit project id in the arguments always used.
  \<open>create_story\<close> with the explicit project id 0, which its schema accepts, and the
  session context 42 writes the story to project 42.
\<close>

theorem explicit_zero_project_id_not_used:
  "CreateStorySchema (VObj [(''name'', VStr ''Add login''), (''project_id'', VNum (Num 0))])
     = Inr \<lparr>cs_name = ''Add login'', cs_description = None, cs_estimate = None,
            cs_epic_id = None, cs_project_id = Some 0\<rparr> \<and>
   calls (createStory (example_backend []) (Some (Num 42))
            (VObj [(''name'', VStr ''Add login''), (''project_id'', VNum (Num 0))]))
     = [CreateStory \<lparr>d_name = ''Add login'', d_description = None, d_estimate = None,
                     d_epic_id = None, d_project_id = Num 42, d_status = Some 1\<rparr>]"
  by (simp add: createStory_def schema_defs or_current_def too_large_def example_defs)

text \<open>
  C2, amended. For the info lookup, story creation and story listing, on arguments that
  pass validation: an explicit project id other than 0 is used; otherwise (no explicit id,
  or the explicit id 0) the session context's project id is used when it is set to a
  number other than 0; otherwise the operation fails with the no-project-context error
  and issues no request. The info lookup and the listing issue no request only in that
  last case.
\<close>

theorem project_id_resolution:
  "(\<forall>project_id. GetProjectSchema args = Inr project_id \<longrightarrow>
      resolution_rule project_id cur (getProjectInfo gw cur args) \<and>
      (calls (getProjectInfo gw cur args) = [] \<longrightarrow>
         no_project_context (getProjectInfo gw cur args))) \<and>
   (\<forall>a. CreateStorySchema args = Inr a \<longrightarrow>
      resolution_rule (cs_project_id a) cur (createStory gw cur args)) \<and>
   (\<forall>a. ListStoriesSchema args = Inr a \<longrightarrow>
      resolution_rule (ls_project_id a) cur (listStories gw cur args) \<and>
      (calls (listStories gw cur args) = [] \<longrightarrow>
         no_project_context (listStories gw cur args)))"
  using getProjectInfo_resolution getProjectInfo_no_call createStory_resolution
        listStories_resolution listStories_no_call
  by blast


theorem project_id_resolution_witness:
  "no_project_context (getProjectInfo (example_backend []) None (VObj [])) \<and>
   runs_on_project (Num 42)
     (getProjectInfo (example_backend []) (Some (Num 42)) (VObj [])) \<and>
   runs_on_project (Num 42)
     (listStories (example_backend []) (Some (Num 5)) (VObj [(''project_id'', VNum (Num 42))])) \<and>
   initialProjectId (Some ''0'') = Some (Num 0) \<and>
   no_project_context
     (createStory (example_backend []) (initialProjectId (Some ''0''))
        (VObj [(''name'', VStr ''Add login'')]))"
proof -
  let ?gw = "example_backend []"
  note t = project_id_resolution
  have p0: "GetProjectSchema (VObj []) = Inr None" by (simp add: schema_defs)
  have pl: "ListStoriesSchema (VObj [(''project_id'', VNum (Num 42))])
              = Inr \<lparr>ls_status = None, ls_project_id = Some 42\<rparr>"
    by (simp add: schema_defs)
  have pc: "CreateStorySchema (VObj [(''name'', VStr ''Add login'')])
              = Inr \<lparr>cs_name = ''Add login'', cs_description = None, cs_estimate = None,
                     cs_epic_id = None, cs_project_id = None\<rparr>"
    by (simp add: schema_defs)
  have i0: "initialProjectId (Some ''0'') = Some (Num 0)"
    by (simp add: initialProjectId_def parseInt_def is_space_def parse_digits_def digit_of_def)
  from t [of "VObj []" None ?gw] p0
  have "resolution_rule None None (getProjectInfo ?gw None (VObj []))" by blast
  then have r1: "no_project_context (getProjectInfo ?gw None (VObj []))"
    by (simp add: resolution_rule_def from_context_def)
  from t [of "VObj []" "Some (Num 42)" ?gw] p0
  have "resolution_rule None (Some (Num 42)) (getProjectInfo ?gw (Some (Num 42)) (VObj []))"
    by blast
  then have r2: "runs_on_project (Num 42) (getProjectInfo ?gw (Some (Num 42)) (VObj []))"
    by (simp add: resolution_rule_def from_context_def)
  from t [of "VObj [(''project_id'', VNum (Num 42))]" "Some (Num 5)" ?gw] pl
  have "resolution_rule (Some 42) (Some (Num 5))
          (listStories ?gw (Some (Num 5)) (VObj [(''project_id'', VNum (Num 42))]))"
    by fastforce
  then have r3: "runs_on_project (Num 42)
          (listStories ?gw (Some (Num 5)) (VObj [(''project_id'', VNum (Num 42))]))"
    by (simp add: resolution_rule_def)
  from t [of "VObj [(''name'', VStr ''Add login'')]" "Some (Num 0)" ?gw] pc
  have "resolution_rule None (Some (Num 0))
          (createStory ?gw (Some (Num 0)) (VObj [(''name'', VStr ''Add login'')]))"
    by fastforce
  then have r4: "no_project_context
          (createStory ?gw (Some (Num 0)) (VObj [(''name'', VStr ''Add login'')]))"
    by (simp add: resolution_rule_def from_context_def)
  from r1 r2 r3 r4 i0 show ?thesis by simp
qed

text \<open>
  C10. In \<open>create_story\<close> and \<open>list_my_stories\<close> an explicit \<open>project_id\<close> of 0
  passes validation (validation succeeds exactly when it does without the field) and the
  call then behaves as the same call without the field: it runs on the session context's
  project, or fails with the no-project-context error when no context is set.
\<close>

theorem zero_project_id_treated_as_absent:
  assumes "get_prop fs ''project_id'' = VNum (Num 0)"
  shows "createStory gw cur (VObj fs) = createStory gw cur (VObj (without_project_id fs)) \<and>
         listStories gw cur (VObj fs) = listStories gw cur (VObj (without_project_id fs)) \<and>
         isl (CreateStorySchema (VObj fs)) = isl (CreateStorySchema (VObj (without_project_id fs))) \<and>
         isl (ListStoriesSchema (VObj fs)) = isl (ListStoriesSchema (VObj (without_project_id fs))) \<and>
         (\<forall>a. CreateStorySchema (VObj fs) = Inr a \<longrightarrow>
            cs_project_id a = Some 0 \<and> from_context cur (createStory gw cur (VObj fs))) \<and>
         (\<forall>a. ListStoriesSchema (VObj fs) = Inr a \<longrightarrow>
            ls_project_id a = Some 0 \<and> from_context cur (listStories gw cur (VObj fs)))"
proof (intro conjI allI impI)
  show "createStory gw cur (VObj fs) = createStory gw cur (VObj (without_project_id fs))"
    by (rule createStory_zero_project_id [OF assms])
  show "listStories gw cur (VObj fs) = listStories gw cur (VObj (without_project_id fs))"
    by (rule listStories_zero_project_id [OF assms])
  show "isl (CreateStorySchema (VObj fs)) = isl (CreateStorySchema (VObj (without_project_id fs)))"
    by (simp add: CreateStorySchema_zero_project_id(1) [OF assms] split: sum.splits)
  show "isl (ListStoriesSchema (VObj fs)) = isl (ListStoriesSchema (VObj (without_project_id fs)))"
    by (simp add: ListStoriesSchema_zero_project_id(1) [OF assms] split: sum.splits)
next
  fix a assume p: "CreateStorySchema (VObj fs) = Inr a"
  from CreateStorySchema_zero_project_id(2) [OF assms p]
  show z: "cs_project_id a = Some 0" .
  from createStory_resolution [OF p, of cur gw] z
  show "from_context cur (createStory gw cur (VObj fs))"
    by (simp add: resolution_rule_def)
next
  fix a assume p: "ListStoriesSchema (VObj fs) = Inr a"
  from ListStoriesSchema_zero_project_id(2) [OF assms p]
  show z: "ls_project_id a = Some 0" .
  from listStories_resolution [OF p, of cur gw] z
  show "from_context cur (listStories gw cur (VObj fs))"
    by (simp add: resolution_rule_def)
qed

theorem zero_project_id_treated_as_absent_witness:
  "runs_on_project (Num 42)
     (listStories (example_backend []) (Some (Num 42)) (VObj [(''project_id'', VNum (Num 0))])) \<and>
   no_project_context
     (listStories (example_backend []) None (VObj [(''project_id'', VNum (Num 0))])) \<and>
   createStory (example_backend []) (Some (Num 42))
       (VObj [(''project_id'', VNum (Num 0)), (''name'', VStr ''Fix typo'')])
     = createStory (example_backend []) (Some (Num 42)) (VObj [(''name'', VStr ''Fix typo'')])"
proof -
  let ?gw = "example_backend []"
  let ?l = "[(''project_id'', VNum (Num 0))]"
  let ?c = "[(''project_id'', VNum (Num 0)), (''name'', VStr ''Fix typo'')]"
  have gl: "get_prop ?l ''project_id'' = VNum (Num 0)" by (simp add: get_prop_def)
  have gc: "get_prop ?c ''project_id'' = VNum (Num 0)" by (simp add: get_prop_def)
  have pl: "ListStoriesSchema (VObj ?l) = Inr \<lparr>ls_status = None, ls_project_id = Some 0\<rparr>"
    by (simp add: schema_defs)
  have wc: "without_project_id ?c = [(''name'', VStr ''Fix typo'')]"
    by (simp add: without_project_id_def)
  from zero_project_id_treated_as_absent [OF gl, of ?gw "Some (Num 42)"] pl
  have "from_context (Some (Num 42)) (listStories ?gw (Some (Num 42)) (VObj ?l))"
    by blast
  then have r1: "runs_on_project (Num 42) (listStories ?gw (Some (Num 42)) (VObj ?l))"
    by (simp add: from_context_def)
  from zero_project_id_treated_as_absent [OF gl, of ?gw None] pl
  have "from_context None (listStories ?gw None (VObj ?l))"
    by blast
  then have r2: "no_project_context (listStories ?gw None (VObj ?l))"
    by (simp add: from_context_def)
  from zero_project_id_treated_as_absent [OF gc, of ?gw "Some (Num 42)"] wc
  have r3: "createStory ?gw (Some (Num 42)) (VObj ?c)
              = createStory ?gw (Some (Num 42)) (VObj [(''name'', VStr ''Fix typo'')])"
    by simp
  from r1 r2 r3 show ?thesis by simp
qed

section \<open>Listing stories\<close>

lemma ListStoriesSchema_status:
  assumes "ListStoriesSchema args = Inr a"
  shows "ls_status a = None \<or> ls_status a = Some ''1'' \<or> ls_status a = Some ''3'' \<or>
         ls_status a = Some ''5'' \<or> ls_status a = Some ''all''"
proof -
  from assms obtain fs where fs: "args = VObj fs"
    by (cases args) (simp_all add: ListStoriesSchema_def)
  from assms fs
  have "z_optional (z_enum [''1'', ''3'', ''5'', ''all'']) (get_prop fs ''status'')
          = Some (ls_status a)"
    by (auto simp add: ListStoriesSchema_def split: option.splits)
  then show ?thesis
    by (cases "get_prop fs ''status''")
       (auto simp add: z_optional_def z_enum_def split: option.splits if_splits)
qed

lemma filtered_by_status:
  "filteredStories None stories = stories"
  "filteredStories (Some ''all'') stories = stories"
  "filteredStories (Some ''1'') stories = filter (\<lambda>st. story_status st = Num 1) stories"
  "filteredStories (Some ''3'') stories = filter (\<lambda>st. story_status st = Num 3) stories"
  "filteredStories (Some ''5'') stories = filter (\<lambda>st. story_status st = Num 5) stories"
  by (simp_all add: filteredStories_def status_filter_def parseInt_enum)

lemma filter_label_by_status:
  "filter_label None = None"
  "filter_label (Some ''all'') = None"
  "filter_label (Some ''1'') = Some ''Backlog''"
  "filter_label (Some ''3'') = Some ''In Progress''"
  "filter_label (Some ''5'') = Some ''Done''"
  by (simp_all add: filter_label_def status_filter_def parseInt_enum statusNames_def shown_def)

lemma listStories_rendered:
  assumes "ListStoriesSchema args = Inr a"
      and "or_current (ls_project_id a) cur = Some n"
      and "truthy_num n"
      and "client_getProjectStories gw n = Inr stories"
  shows "listStories gw cur args =
           \<lparr>result = Inr (rendered (filter_label (ls_status a))
                            (filteredStories (ls_status a) stories)),
            calls = [GetProjectStories n], currentProjectId = cur\<rparr>"
  using assms(4) by (simp add: listStories_resolved [OF assms(1,2,3)] rendered_def)

text \<open>
  C7, as the claim states it, has the message for an empty result name the filter used.
  With the filter \<open>all\<close> and no story the message names no filter.
\<close>

theorem list_stories_all_names_no_filter:
  "listStories (example_backend []) (Some (Num 42)) (VObj [(''status'', VStr ''all'')])
     = \<lparr>result = Inr (NoStoriesFound None), calls = [GetProjectStories (Num 42)],
        currentProjectId = Some (Num 42)\<rparr>"
  by (simp add: listStories_def schema_defs or_current_def example_defs filteredStories_def
        status_filter_def filter_label_def)

text \<open>
  C7, amended. For a valid \<open>list_my_stories\<close> call whose project id resolves and
  whose story fetch succeeds: with no status filter or the filter \<open>all\<close> every fetched
  story is kept, and with the filter 1, 3 or 5 exactly the stories of that status are
  kept, in order. When no story is kept the response is the no-stories-found message,
  which names the status of the filter (Backlog, In Progress, Done) and names nothing
  for \<open>all\<close> or no filter. Otherwise the response lists the first ten kept stories at
  most and, when more than ten are kept, ends by the number of the kept stories beyond
  ten (see \<open>rendered\<close>).
\<close>

theorem list_stories_rendering:
  assumes "ListStoriesSchema args = Inr a"
      and "or_current (ls_project_id a) cur = Some n"
      and "truthy_num n"
      and "client_getProjectStories gw n = Inr stories"
  shows "calls (listStories gw cur args) = [GetProjectStories n] \<and>
         ((ls_status a = None \<or> ls_status a = Some ''all'') \<and>
            result (listStories gw cur args) = Inr (rendered None stories)
          \<or> ls_status a = Some ''1'' \<and>
            result (listStories gw cur args) =
              Inr (rendered (Some ''Backlog'')
                     (filter (\<lambda>st. story_status st = Num 1) stories))
          \<or> ls_status a = Some ''3'' \<and>
            result (listStories gw cur args) =
              Inr (rendered (Some ''In Progress'')
                     (filter (\<lambda>st. story_status st = Num 3) stories))
          \<or> ls_status a = Some ''5'' \<and>
            result (listStories gw cur args) =
              Inr (rendered (Some ''Done'')
                     (filter (\<lambda>st. story_status st = Num 5) stories)))"
  using ListStoriesSchema_status [OF assms(1)]
  by (auto simp add: listStories_rendered [OF assms] filtered_by_status filter_label_by_status)

theorem list_stories_rendering_witness:
  "result (listStories
             (example_backend (replicate 11 (example_story 7 (StStr ''3'')) @
                               [example_story 8 (StNum 1)]))
             (Some (Num 42)) (VObj [(''status'', VStr ''3'')]))
     = Inr (StoryList (Some ''In Progress'')
              (replicate 10 (7, ''Task'', ''In Progress'', Some 2)) (Some 1)) \<and>
   result (listStories (example_backend [example_story 8 (StNum 1)])
             (Some (Num 42)) (VObj [(''status'', VStr ''5'')]))
     = Inr (NoStoriesFound (Some ''Done''))"
proof -
  let ?sts = "replicate 11 (example_story 7 (StStr ''3'')) @ [example_story 8 (StNum 1)]"
  let ?a3 = "\<lparr>ls_status = Some ''3'', ls_project_id = None\<rparr>"
  let ?a5 = "\<lparr>ls_status = Some ''5'', ls_project_id = None\<rparr>"
  have p3: "ListStoriesSchema (VObj [(''status'', VStr ''3'')]) = Inr ?a3"
    by (simp add: schema_defs)
  have p5: "ListStoriesSchema (VObj [(''status'', VStr ''5'')]) = Inr ?a5"
    by (simp add: schema_defs)
  have r3: "or_current (ls_project_id ?a3) (Some (Num 42)) = Some (Num 42)"
    by (simp add: or_current_def)
  have r5: "or_current (ls_project_id ?a5) (Some (Num 42)) = Some (Num 42)"
    by (simp add: or_current_def)
  have t: "truthy_num (Num 42)" by simp
  have g3: "client_getProjectStories (example_backend ?sts) (Num 42) = Inr ?sts"
    by (simp add: example_backend_def)
  have g5: "client_getProjectStories (example_backend [example_story 8 (StNum 1)]) (Num 42)
              = Inr [example_story 8 (StNum 1)]"
    by (simp add: example_backend_def)
  have s3: "story_status (example_story 7 (StStr ''3'')) = Num 3"
    by (simp add: story_status_def example_story_def parseInt_enum)
  have s1: "story_status (example_story 8 (StNum 1)) = Num 1"
    by (simp add: story_status_def example_story_def)
  have f3: "filter (\<lambda>st. story_status st = Num 3) ?sts
              = replicate 11 (example_story 7 (StStr ''3''))"
    by (simp add: s3 s1)
  have l3: "story_line (example_story 7 (StStr ''3'')) = (7, ''Task'', ''In Progress'', Some 2)"
    by (simp add: story_line_def s3 statusNames_def shown_def) (simp add: example_story_def)
  have k3: "rendered (Some ''In Progress'') (replicate 11 (example_story 7 (StStr ''3'')))
              = StoryList (Some ''In Progress'')
                  (replicate 10 (7, ''Task'', ''In Progress'', Some 2)) (Some 1)"
    by (simp add: rendered_def l3 min_def)
  have k5: "rendered (Some ''Done'') (filter (\<lambda>st. story_status st = Num 5)
                                             [example_story 8 (StNum 1)])
              = NoStoriesFound (Some ''Done'')"
    by (simp add: rendered_def s1)
  from list_stories_rendering [OF p3 r3 t g3] f3 k3
  have c3: "result (listStories (example_backend ?sts) (Some (Num 42))
                      (VObj [(''status'', VStr ''3'')]))
              = Inr (StoryList (Some ''In Progress'')
                       (replicate 10 (7, ''Task'', ''In Progress'', Some 2)) (Some 1))"
    by simp
  from list_stories_rendering [OF p5 r5 t g5] k5
  have c5: "result (listStories (example_backend [example_story 8 (StNum 1)])
                      (Some (Num 42)) (VObj [(''status'', VStr ''5'')]))
              = Inr (NoStoriesFound (Some ''Done''))"
    by simp
  from c3 c5 show ?thesis by simp
qed

section \<open>The health probe\<close>

text \<open>
  C8. The health probe takes no argument beyond what the network answers, always
  returns a boolean and never raises: the result is true exactly when the body of the
  \<open>try\<close> block returned true, and false whenever the request was rejected or reading
  the response raised.
\<close>

theorem health_check_never_raises:
  "healthCheck r = Inr (healthCheck_try r = Inr True) \<and>
   healthCheck (Rejected m) = Inr False \<and>
   healthCheck (Resolved VUndefined) = Inr False \<and>
   healthCheck (Resolved (VObj [(''success'', VStr ''yes'')])) = Inr False \<and>
   healthCheck (Resolved (VObj [(''success'', VBool True)])) = Inr True"
  by (auto simp add: healthCheck_def healthCheck_try_def read_success_def get_prop_def
        split: sum.splits)

end
